theory Spec2Isabelle
  imports Main "HOL-Library.Word"
begin

unbundle bit_operations_syntax

section \<open>Data model of package eidas (csr.go)\<close>

text \<open>
  Go's \<open>asn1.ObjectIdentifier\<close> is a slice of \<open>int\<close>; \<open>Equal\<close> compares length and
  components, which is equality of lists. \<open>x509.KeyUsage\<close> is an \<open>int\<close> (64 bits on the
  platforms the package is built for); the conversion \<open>uint(usage)\<close> keeps its bits.
\<close>

type_synonym byte = "8 word"
type_synonym bytes = "byte list"
type_synonym ObjectIdentifier = "int list"
type_synonym KeyUsage = "64 word"

definition Equal :: "ObjectIdentifier \<Rightarrow> ObjectIdentifier \<Rightarrow> bool" where
  "Equal oi other = (oi = other)"

text \<open>The constants of crypto/x509: \<open>KeyUsageDigitalSignature KeyUsage = 1 << iota\<close> and so on.\<close>

definition KeyUsageDigitalSignature :: KeyUsage where "KeyUsageDigitalSignature = 1"
definition KeyUsageContentCommitment :: KeyUsage where "KeyUsageContentCommitment = 2"
definition KeyUsageKeyEncipherment :: KeyUsage where "KeyUsageKeyEncipherment = 4"
definition KeyUsageDataEncipherment :: KeyUsage where "KeyUsageDataEncipherment = 8"
definition KeyUsageKeyAgreement :: KeyUsage where "KeyUsageKeyAgreement = 16"
definition KeyUsageCertSign :: KeyUsage where "KeyUsageCertSign = 32"
definition KeyUsageCRLSign :: KeyUsage where "KeyUsageCRLSign = 64"
definition KeyUsageEncipherOnly :: KeyUsage where "KeyUsageEncipherOnly = 128"
definition KeyUsageDecipherOnly :: KeyUsage where "KeyUsageDecipherOnly = 256"

record BitString =
  Bytes :: bytes
  BitLength :: int

record Extension =
  ExtId :: ObjectIdentifier
  Critical :: bool
  Value :: bytes

record AttributeTypeAndValue =
  Type :: ObjectIdentifier
  AttrValue :: string

type_synonym RDNSequence = "AttributeTypeAndValue list list"

record Name =
  ExtraNames :: "AttributeTypeAndValue list"

record rsa_PublicKey =
  N :: int
  E :: int

record rsa_PrivateKey =
  PublicKey :: rsa_PublicKey
  D :: int
  Primes :: "int list"

text \<open>
  What \<open>priv.Public()\<close> returns is an interface value: a \<open>*rsa.PublicKey\<close>, or a value of
  some other dynamic type, kept here with the name \<open>%T\<close> prints for it.
\<close>

datatype PublicKey = RSA_Pub rsa_PublicKey | Other_Pub string

datatype Signer = RSA_Signer rsa_PrivateKey | Other_Signer PublicKey

fun Public :: "Signer \<Rightarrow> PublicKey" where
  "Public (RSA_Signer k) = RSA_Pub (PublicKey k)"
| "Public (Other_Signer p) = p"

datatype SignatureAlgorithm = UnknownSignatureAlgorithm | SHA256WithRSA
datatype PublicKeyAlgorithm = UnknownPublicKeyAlgorithm | RSA

record CertificateRequest =
  Version :: int
  RawSubject :: bytes
  SignatureAlgorithm :: SignatureAlgorithm
  PublicKeyAlgorithm :: PublicKeyAlgorithm
  ExtraExtensions :: "Extension list"
  DNSNames :: "string list"

type_synonym CertificateOption = "CertificateRequest \<Rightarrow> CertificateRequest"

text \<open>
  The errors of the package. Each is built by \<open>fmt.Errorf\<close>; the constructor keeps the
  value that is formatted into the message (\<open>Error\<close> below renders it).
\<close>

datatype error =
    UnsupportedKeyType string
  | UnknownCountryCode string
  | QCStatementEncodingFailed string
  | UnsupportedCertificateType ObjectIdentifier
  | SubjectEncodingFailed string
  | SigningFailed string
  | KeyGenerationFailed string

text \<open>
  A Go function returning \<open>(v, err)\<close> is modelled with both components, \<open>None\<close> for
  \<open>nil\<close>. \<open>log.Fatalf\<close> ends the process: the call does not return, which is \<open>Exit\<close>.
\<close>

datatype 'a exec = Exit string | Return 'a

subsection \<open>The collaborators outside csr.go\<close>

text \<open>
  Package qcstatements (the two type OIDs, the competent-authority lookup and the
  statement encoder) is not among the sources at hand, and the Go standard library is
  a trusted primitive. Both are parameters of the model; a failed call carries the
  message of its error.
\<close>

record ('role, 'ca) qcstatements =
  QWACType :: ObjectIdentifier
  QSEALType :: ObjectIdentifier
  CompetentAuthorityForCountryCode :: "string \<Rightarrow> string + 'ca"
  Serialize :: "'role list \<Rightarrow> 'ca \<Rightarrow> ObjectIdentifier \<Rightarrow> string + bytes"

record stdlib =
  Marshal_BitString :: "BitString \<Rightarrow> string + bytes"
  Marshal_OIDs :: "ObjectIdentifier list \<Rightarrow> string + bytes"
  Marshal_Bytes :: "bytes \<Rightarrow> string + bytes"
  Marshal_RDNSequence :: "RDNSequence \<Rightarrow> string + bytes"
  sha1_Sum :: "bytes \<Rightarrow> bytes"
  MarshalPKCS1PublicKey :: "rsa_PublicKey \<Rightarrow> bytes"
  CreateCertificateRequest :: "CertificateRequest \<Rightarrow> Signer \<Rightarrow> string + bytes"
  GenerateKey :: "nat \<Rightarrow> string + rsa_PrivateKey"
  OID_String :: "ObjectIdentifier \<Rightarrow> string"

definition Error :: "stdlib \<Rightarrow> error \<Rightarrow> string" where
  "Error S e = (case e of
       UnsupportedKeyType T \<Rightarrow> ''only RSA keys are currently supported but got: '' @ T
     | UnknownCountryCode m \<Rightarrow> ''eidas: '' @ m
     | QCStatementEncodingFailed m \<Rightarrow> ''eidas: '' @ m
     | UnsupportedCertificateType t \<Rightarrow> ''unknown QC type: '' @ OID_String S t
     | SubjectEncodingFailed m \<Rightarrow> ''failed to build CSR subject: '' @ m
     | SigningFailed m \<Rightarrow> ''failed to generate csr: '' @ m
     | KeyGenerationFailed m \<Rightarrow> ''failed to generate key pair: '' @ m)"

section \<open>Extension builders\<close>

definition tLSWWWServerAuthUsage :: ObjectIdentifier where
  "tLSWWWServerAuthUsage = [1, 3, 6, 1, 5, 5, 7, 3, 1]"

definition tLSWWWClientAuthUsage :: ObjectIdentifier where
  "tLSWWWClientAuthUsage = [1, 3, 6, 1, 5, 5, 7, 3, 2]"

definition QCStatementsExt :: ObjectIdentifier where
  "QCStatementsExt = [1, 3, 6, 1, 5, 5, 7, 1, 3]"

definition oidCountryCode :: ObjectIdentifier where "oidCountryCode = [2, 5, 4, 6]"
definition oidOrganizationName :: ObjectIdentifier where "oidOrganizationName = [2, 5, 4, 10]"
definition oidOrganizationID :: ObjectIdentifier where "oidOrganizationID = [2, 5, 4, 97]"
definition oidCommonName :: ObjectIdentifier where "oidCommonName = [2, 5, 4, 3]"

text \<open>csr.go, lines 100-112.\<close>

definition keyUsageForType ::
  "('role, 'ca) qcstatements \<Rightarrow> ObjectIdentifier \<Rightarrow> KeyUsage list option \<times> error option" where
  "keyUsageForType Q t =
     (if Equal t (QWACType Q) then
        (Some [KeyUsageDigitalSignature], None)
      else if Equal t (QSEALType Q) then
        (Some [KeyUsageDigitalSignature, KeyUsageContentCommitment], None)
      else (None, Some (UnsupportedCertificateType t)))"

text \<open>csr.go, lines 133-143.\<close>

definition extendedKeyUsageForType ::
  "('role, 'ca) qcstatements \<Rightarrow> ObjectIdentifier \<Rightarrow> ObjectIdentifier list option \<times> error option" where
  "extendedKeyUsageForType Q t =
     (if Equal t (QWACType Q) then
        (Some [tLSWWWServerAuthUsage, tLSWWWClientAuthUsage], None)
      else if Equal t (QSEALType Q) then (Some [], None)
      else (None, Some (UnsupportedCertificateType t)))"

text \<open>
  Go's \<open>v << s\<close> on a \<open>uint16\<close> with an unsigned count: a count of 16 or more gives 0.
\<close>

definition shl16 :: "16 word \<Rightarrow> 64 word \<Rightarrow> 16 word" where
  "shl16 v s = (if unat s < 16 then push_bit (unat s) v else 0)"

text \<open>
  The loop of \<open>keyUsageExtension\<close> (lines 115-118): \<open>x |= uint16(1) << (8 - uint(usage))\<close>,
  the subtraction wrapping in \<open>uint\<close>.
\<close>

fun keyUsageMask :: "16 word \<Rightarrow> KeyUsage list \<Rightarrow> 16 word" where
  "keyUsageMask x [] = x"
| "keyUsageMask x (usage # usages) = keyUsageMask (x OR shl16 1 (8 - usage)) usages"

text \<open>\<open>binary.LittleEndian.PutUint16\<close> into a fresh two-byte slice.\<close>

definition PutUint16 :: "16 word \<Rightarrow> bytes" where
  "PutUint16 v = [ucast v, ucast (drop_bit 8 v)]"

text \<open>The bit string handed to \<open>asn1.Marshal\<close> (lines 115-124).\<close>

definition keyUsageBits :: "KeyUsage list \<Rightarrow> BitString" where
  "keyUsageBits usages =
     \<lparr>Bytes = PutUint16 (keyUsageMask 0 usages), BitLength = sint KeyUsageDecipherOnly\<rparr>"

text \<open>A slice whose marshalling error is dropped (\<open>d, _ := asn1.Marshal(..)\<close>) is nil on error.\<close>

definition ignoreErr :: "string + bytes \<Rightarrow> bytes" where
  "ignoreErr r = (case r of Inl _ \<Rightarrow> [] | Inr d \<Rightarrow> d)"

text \<open>csr.go, lines 114-131.\<close>

definition keyUsageExtension :: "stdlib \<Rightarrow> KeyUsage list \<Rightarrow> Extension" where
  "keyUsageExtension S usages =
     \<lparr>ExtId = [2, 5, 29, 15], Critical = True,
      Value = ignoreErr (Marshal_BitString S (keyUsageBits usages))\<rparr>"

text \<open>csr.go, lines 150-158.\<close>

definition extendedKeyUsageExtension :: "stdlib \<Rightarrow> ObjectIdentifier list \<Rightarrow> Extension" where
  "extendedKeyUsageExtension S usages =
     \<lparr>ExtId = [2, 5, 29, 37], Critical = False, Value = ignoreErr (Marshal_OIDs S usages)\<rparr>"

text \<open>csr.go, lines 160-172; a marshalling error ends the process.\<close>

definition subjectKeyIdentifier :: "stdlib \<Rightarrow> rsa_PublicKey \<Rightarrow> Extension exec" where
  "subjectKeyIdentifier S key =
     (let b = sha1_Sum S (MarshalPKCS1PublicKey S key) in
      case Marshal_Bytes S b of
        Inl err \<Rightarrow> Exit (''failed to marshal subject key identifier: '' @ err)
      | Inr d \<Rightarrow> Return \<lparr>ExtId = [2, 5, 29, 14], Critical = False, Value = d\<rparr>)"

text \<open>csr.go, lines 177-183.\<close>

definition qcStatementsExtension :: "bytes \<Rightarrow> Extension" where
  "qcStatementsExtension data = \<lparr>ExtId = QCStatementsExt, Critical = False, Value = data\<rparr>"

section \<open>Subject builder\<close>

text \<open>
  \<open>pkix.Name.ToRDNSequence\<close> for a name with only \<open>ExtraNames\<close> set: every other field is
  empty and adds nothing, and each extra name becomes a relative name of its own, in order.
\<close>

definition ToRDNSequence :: "Name \<Rightarrow> RDNSequence" where
  "ToRDNSequence n = map (\<lambda>atv. [atv]) (ExtraNames n)"

text \<open>csr.go, lines 191-213. The parameter order is the source's.\<close>

definition buildSubject ::
  "stdlib \<Rightarrow> string \<Rightarrow> string \<Rightarrow> string \<Rightarrow> string \<Rightarrow> string + bytes" where
  "buildSubject S countryCode orgName commonName orgID =
     (let s = \<lparr>ExtraNames =
                 [\<lparr>Type = oidCountryCode, AttrValue = countryCode\<rparr>,
                  \<lparr>Type = oidOrganizationName, AttrValue = orgName\<rparr>,
                  \<lparr>Type = oidOrganizationID, AttrValue = orgID\<rparr>,
                  \<lparr>Type = oidCommonName, AttrValue = commonName\<rparr>]\<rparr>
      in Marshal_RDNSequence S (ToRDNSequence s))"

section \<open>Request assembler\<close>

text \<open>csr.go, lines 23-27: the option appends the domain to the DNS names of the request.\<close>

definition WithDNSName :: "string \<Rightarrow> CertificateOption" where
  "WithDNSName domain req = req\<lparr>DNSNames := DNSNames req @ [domain]\<rparr>"

text \<open>Lines 55-61: the extension list, the extended key usage left out when its list is empty.\<close>

definition assembleExtensions ::
  "stdlib \<Rightarrow> KeyUsage list \<Rightarrow> ObjectIdentifier list \<Rightarrow> Extension \<Rightarrow> bytes \<Rightarrow> Extension list" where
  "assembleExtensions S keyUsage extendedKeyUsage ski qc =
     (let extensions = [keyUsageExtension S keyUsage];
          extensions = (if length extendedKeyUsage \<noteq> 0
                        then extensions @ [extendedKeyUsageExtension S extendedKeyUsage]
                        else extensions)
      in extensions @ [ski, qcStatementsExtension qc])"

text \<open>Lines 67-73: the request before the caller's options; the other fields are zero.\<close>

definition newRequest :: "bytes \<Rightarrow> Extension list \<Rightarrow> CertificateRequest" where
  "newRequest subject extensions =
     \<lparr>Version = 0, RawSubject = subject, SignatureAlgorithm = SHA256WithRSA,
      PublicKeyAlgorithm = RSA, ExtraExtensions = extensions, DNSNames = []\<rparr>"

text \<open>Lines 74-76: \<open>for _, opt := range opts { opt(req) }\<close>.\<close>

fun applyOptions :: "CertificateOption list \<Rightarrow> CertificateRequest \<Rightarrow> CertificateRequest" where
  "applyOptions [] req = req"
| "applyOptions (opt # opts) req = applyOptions opts (opt req)"

text \<open>A nil slice ranges over nothing and has length 0.\<close>

definition elems :: "'a list option \<Rightarrow> 'a list" where
  "elems xs = (case xs of None \<Rightarrow> [] | Some ys \<Rightarrow> ys)"

text \<open>
  \<open>GenerateCSRWithKey\<close>, lines 33-73: everything up to the request that the options and
  the signer then receive. The steps and their order are the source's.
\<close>

definition assembleRequest ::
  "stdlib \<Rightarrow> ('role, 'ca) qcstatements \<Rightarrow> string \<Rightarrow> string \<Rightarrow> string \<Rightarrow> string \<Rightarrow>
   'role list \<Rightarrow> ObjectIdentifier \<Rightarrow> Signer \<Rightarrow> (CertificateRequest option \<times> error option) exec" where
  "assembleRequest S Q countryCode orgName orgID commonName roles qcType priv =
     (case Public priv of
        Other_Pub T \<Rightarrow> Return (None, Some (UnsupportedKeyType T))
      | RSA_Pub pub \<Rightarrow>
     (case CompetentAuthorityForCountryCode Q countryCode of
        Inl err \<Rightarrow> Return (None, Some (UnknownCountryCode err))
      | Inr ca \<Rightarrow>
     (case Serialize Q roles ca qcType of
        Inl err \<Rightarrow> Return (None, Some (QCStatementEncodingFailed err))
      | Inr qc \<Rightarrow>
     (case keyUsageForType Q qcType of
        (_, Some err) \<Rightarrow> Return (None, Some err)
      | (keyUsage, None) \<Rightarrow>
     (case extendedKeyUsageForType Q qcType of
        (_, Some err) \<Rightarrow> Return (None, Some err)
      | (extendedKeyUsage, None) \<Rightarrow>
     (case subjectKeyIdentifier S pub of
        Exit msg \<Rightarrow> Exit msg
      | Return ski \<Rightarrow>
     (case buildSubject S countryCode orgName commonName orgID of
        Inl err \<Rightarrow> Return (None, Some (SubjectEncodingFailed err))
      | Inr subject \<Rightarrow>
          Return (Some (newRequest subject
            (assembleExtensions S (elems keyUsage) (elems extendedKeyUsage) ski qc)), None))))))))"

text \<open>csr.go, lines 31-82.\<close>

definition GenerateCSRWithKey ::
  "stdlib \<Rightarrow> ('role, 'ca) qcstatements \<Rightarrow> string \<Rightarrow> string \<Rightarrow> string \<Rightarrow> string \<Rightarrow>
   'role list \<Rightarrow> ObjectIdentifier \<Rightarrow> Signer \<Rightarrow> CertificateOption list \<Rightarrow>
   (bytes option \<times> error option) exec" where
  "GenerateCSRWithKey S Q countryCode orgName orgID commonName roles qcType priv opts =
     (case assembleRequest S Q countryCode orgName orgID commonName roles qcType priv of
        Exit msg \<Rightarrow> Exit msg
      | Return (_, Some err) \<Rightarrow> Return (None, Some err)
      | Return (None, None) \<Rightarrow> Return (None, None)
      | Return (Some req, None) \<Rightarrow>
          (case CreateCertificateRequest S (applyOptions opts req) priv of
             Inl err \<Rightarrow> Return (None, Some (SigningFailed err))
           | Inr csr \<Rightarrow> Return (Some csr, None)))"

section \<open>Key provisioning\<close>

text \<open>csr.go, lines 86-98.\<close>

definition GenerateCSR ::
  "stdlib \<Rightarrow> ('role, 'ca) qcstatements \<Rightarrow> string \<Rightarrow> string \<Rightarrow> string \<Rightarrow> string \<Rightarrow>
   'role list \<Rightarrow> ObjectIdentifier \<Rightarrow> CertificateOption list \<Rightarrow>
   (bytes option \<times> rsa_PrivateKey option \<times> error option) exec" where
  "GenerateCSR S Q countryCode orgName orgID commonName roles qcType opts =
     (case GenerateKey S 2048 of
        Inl err \<Rightarrow> Return (None, None, Some (KeyGenerationFailed err))
      | Inr key \<Rightarrow>
     (case GenerateCSRWithKey S Q countryCode orgName orgID commonName roles qcType
             (RSA_Signer key) opts of
        Exit msg \<Rightarrow> Exit msg
      | Return (_, Some err) \<Rightarrow> Return (None, None, Some err)
      | Return (csr, None) \<Rightarrow> Return (csr, Some key, None)))"

section \<open>The standard's rule for named bit lists\<close>

text \<open>
  The reference the bit-length claim is measured against, written from the claim's words:
  bit 0 is the most significant bit of the first content byte, and trailing zero bits are
  not part of the string, so the declared length is one more than the index of the last
  bit that is set (0 when none is).
\<close>

definition bitAt :: "bytes \<Rightarrow> nat \<Rightarrow> bool" where
  "bitAt bs i = (i div 8 < length bs \<and> bit (bs ! (i div 8)) (7 - i mod 8))"

definition canonicalBitLength :: "bytes \<Rightarrow> int" where
  "canonicalBitLength bs =
     (case filter (bitAt bs) (rev [0..<8 * length bs]) of [] \<Rightarrow> 0 | i # _ \<Rightarrow> int i + 1)"

section \<open>A small platform for concrete runs\<close>

text \<open>
  Stand-ins for the collaborators, simple enough to evaluate: they let the theorems below
  be run on the inputs of csr\_test.go.
\<close>

definition testKey :: rsa_PrivateKey where
  "testKey = \<lparr>PublicKey = \<lparr>N = 3233, E = 17\<rparr>, D = 2753, Primes = [61, 53]\<rparr>"

definition testStdlib :: stdlib where
  "testStdlib =
     \<lparr>Marshal_BitString = (\<lambda>b. Inr (3 # Bytes b)),
      Marshal_OIDs = (\<lambda>os. Inr [48, of_nat (length os)]),
      Marshal_Bytes = (\<lambda>b. Inr (4 # b)),
      Marshal_RDNSequence = (\<lambda>r. Inr [48, of_nat (length r)]),
      sha1_Sum = (\<lambda>b. [1, 2]),
      MarshalPKCS1PublicKey = (\<lambda>k. [48]),
      CreateCertificateRequest = (\<lambda>req priv. Inr (RawSubject req)),
      GenerateKey = (\<lambda>bits. Inr testKey),
      OID_String = (\<lambda>oid. ''oid'')\<rparr>"

definition noEntropyStdlib :: stdlib where
  "noEntropyStdlib = testStdlib\<lparr>GenerateKey := (\<lambda>bits. Inl ''no entropy'')\<rparr>"

definition testQC :: "(string, string \<times> string) qcstatements" where
  "testQC =
     \<lparr>QWACType = [0, 4, 0, 1862, 1, 6, 3],
      QSEALType = [0, 4, 0, 1862, 1, 6, 2],
      CompetentAuthorityForCountryCode =
        (\<lambda>cc. if cc = ''GB'' then Inr (''Financial Conduct Authority'', ''GB-FCA'')
              else Inl ''unknown country code''),
      Serialize = (\<lambda>roles ca t. Inr [48])\<rparr>"

section \<open>What a successful build went through\<close>

lemma assembleRequest_SomeD:
  assumes "assembleRequest S Q countryCode orgName orgID commonName roles qcType priv
             = Return (Some req, None)"
  shows "\<exists>pub ca qc keyUsage extendedKeyUsage ski subject.
           Public priv = RSA_Pub pub \<and>
           CompetentAuthorityForCountryCode Q countryCode = Inr ca \<and>
           Serialize Q roles ca qcType = Inr qc \<and>
           keyUsageForType Q qcType = (keyUsage, None) \<and>
           extendedKeyUsageForType Q qcType = (extendedKeyUsage, None) \<and>
           subjectKeyIdentifier S pub = Return ski \<and>
           buildSubject S countryCode orgName commonName orgID = Inr subject \<and>
           req = newRequest subject
                   (assembleExtensions S (elems keyUsage) (elems extendedKeyUsage) ski qc)"
proof (cases "Public priv")
  case (Other_Pub T)
  with assms show ?thesis by (simp add: assembleRequest_def)
next
  case (RSA_Pub pub)
  note pub = this
  show ?thesis
  proof (cases "CompetentAuthorityForCountryCode Q countryCode")
    case (Inl e)
    with assms pub show ?thesis by (simp add: assembleRequest_def)
  next
    case (Inr ca)
    note ca = this
    show ?thesis
    proof (cases "Serialize Q roles ca qcType")
      case (Inl e)
      with assms pub ca show ?thesis by (simp add: assembleRequest_def)
    next
      case (Inr qc)
      note qc = this
      obtain ku kerr where ku: "keyUsageForType Q qcType = (ku, kerr)"
        by (cases "keyUsageForType Q qcType")
      obtain eku eerr where eku: "extendedKeyUsageForType Q qcType = (eku, eerr)"
        by (cases "extendedKeyUsageForType Q qcType")
      from assms pub ca qc ku have kerr: "kerr = None"
        by (cases kerr) (simp_all add: assembleRequest_def)
      from assms pub ca qc ku eku kerr have eerr: "eerr = None"
        by (cases eerr) (simp_all add: assembleRequest_def)
      show ?thesis
      proof (cases "subjectKeyIdentifier S pub")
        case (Exit m)
        with assms pub ca qc ku eku kerr eerr show ?thesis
          by (simp add: assembleRequest_def)
      next
        case (Return ski)
        note ski = this
        show ?thesis
        proof (cases "buildSubject S countryCode orgName commonName orgID")
          case (Inl e)
          with assms pub ca qc ku eku kerr eerr ski show ?thesis
            by (simp add: assembleRequest_def)
        next
          case (Inr subject)
          with assms pub ca qc ku eku kerr eerr ski show ?thesis
            by (simp add: assembleRequest_def)
        qed
      qed
    qed
  qed
qed

lemma GenerateCSRWithKey_SomeD:
  assumes "GenerateCSRWithKey S Q countryCode orgName orgID commonName roles qcType priv opts
             = Return (Some csr, None)"
  shows "\<exists>req. assembleRequest S Q countryCode orgName orgID commonName roles qcType priv
                  = Return (Some req, None) \<and>
               CreateCertificateRequest S (applyOptions opts req) priv = Inr csr"
proof (cases "assembleRequest S Q countryCode orgName orgID commonName roles qcType priv")
  case (Exit m)
  with assms show ?thesis by (simp add: GenerateCSRWithKey_def)
next
  case (Return r)
  obtain req err where r: "r = (req, err)" by (cases r)
  from assms Return r have err: "err = None"
    by (cases err; cases req) (simp_all add: GenerateCSRWithKey_def)
  from assms Return r err obtain rq where rq: "req = Some rq"
    by (cases req) (simp_all add: GenerateCSRWithKey_def)
  from assms Return r err rq show ?thesis
    by (cases "CreateCertificateRequest S (applyOptions opts rq) priv")
       (simp_all add: GenerateCSRWithKey_def)
qed

lemma keyUsageForType_NoneD:
  "keyUsageForType Q t = (ku, None) \<Longrightarrow>
     (t = QWACType Q \<and> ku = Some [KeyUsageDigitalSignature]) \<or>
     (t \<noteq> QWACType Q \<and> t = QSEALType Q \<and>
      ku = Some [KeyUsageDigitalSignature, KeyUsageContentCommitment])"
  by (auto simp: keyUsageForType_def Equal_def split: if_splits)

lemma extendedKeyUsageForType_NoneD:
  "extendedKeyUsageForType Q t = (eku, None) \<Longrightarrow>
     (t = QWACType Q \<and> eku = Some [tLSWWWServerAuthUsage, tLSWWWClientAuthUsage]) \<or>
     (t \<noteq> QWACType Q \<and> t = QSEALType Q \<and> eku = Some [])"
  by (auto simp: extendedKeyUsageForType_def Equal_def split: if_splits)

lemmas test_defs = testStdlib_def noEntropyStdlib_def testQC_def testKey_def
  GenerateCSR_def GenerateCSRWithKey_def assembleRequest_def
  keyUsageForType_def extendedKeyUsageForType_def Equal_def subjectKeyIdentifier_def
  buildSubject_def newRequest_def assembleExtensions_def elems_def ToRDNSequence_def
  WithDNSName_def

lemma test_build_QWAC:
  "GenerateCSRWithKey testStdlib testQC ''GB'' ''Foo Org'' ''Foo Org ID'' ''Foo Name'' [''PSP_AI'']
     [0, 4, 0, 1862, 1, 6, 3] (RSA_Signer testKey) [WithDNSName ''foo.example.com'']
   = Return (Some [48, 4], None)"
  by (simp add: test_defs)

lemma test_build_QSEAL:
  "GenerateCSRWithKey testStdlib testQC ''GB'' ''Foo Org'' ''Foo Org ID'' ''Foo Name'' [''PSP_AI'']
     [0, 4, 0, 1862, 1, 6, 2] (RSA_Signer testKey) []
   = Return (Some [48, 4], None)"
  by (simp add: test_defs)

section \<open>Key usage and extended key usage by certificate type\<close>

text \<open>
  Claim C1. With QWAC and QSEAL two different type OIDs, \<open>keyUsageForType\<close> returns
  exactly \<open>[DigitalSignature]\<close> for QWAC, exactly \<open>[DigitalSignature, ContentCommitment]\<close>
  (ContentCommitment is NonRepudiation) in that order for QSEAL, and for every other OID
  the error for an unknown type together with a nil list.
\<close>

theorem keyUsageForType_table:
  assumes "QWACType Q \<noteq> QSEALType Q"
  shows "(t = QWACType Q \<longrightarrow> keyUsageForType Q t = (Some [KeyUsageDigitalSignature], None)) \<and>
         (t = QSEALType Q \<longrightarrow>
            keyUsageForType Q t
              = (Some [KeyUsageDigitalSignature, KeyUsageContentCommitment], None)) \<and>
         (t \<noteq> QWACType Q \<and> t \<noteq> QSEALType Q \<longrightarrow>
            keyUsageForType Q t = (None, Some (UnsupportedCertificateType t)))"
  using assms by (simp add: keyUsageForType_def Equal_def)

theorem keyUsageForType_table_witness:
  "QWACType testQC \<noteq> QSEALType testQC \<and>
   keyUsageForType testQC [0, 4, 0, 1862, 1, 6, 3] = (Some [KeyUsageDigitalSignature], None) \<and>
   keyUsageForType testQC [0, 4, 0, 1862, 1, 6, 2]
     = (Some [KeyUsageDigitalSignature, KeyUsageContentCommitment], None) \<and>
   keyUsageForType testQC [1, 2, 3] = (None, Some (UnsupportedCertificateType [1, 2, 3]))"
  using keyUsageForType_table [of testQC "[0, 4, 0, 1862, 1, 6, 3]"]
        keyUsageForType_table [of testQC "[0, 4, 0, 1862, 1, 6, 2]"]
        keyUsageForType_table [of testQC "[1, 2, 3]"]
  by (simp add: testQC_def)

text \<open>
  Claim C7. For every type OID the two lookups fail together: each succeeds exactly on
  QWAC and QSEAL, and on any other OID both return the same error.
\<close>

theorem lookups_reject_alike:
  "(snd (keyUsageForType Q t) = None) = (snd (extendedKeyUsageForType Q t) = None) \<and>
   (snd (keyUsageForType Q t) = None) = (t = QWACType Q \<or> t = QSEALType Q) \<and>
   snd (keyUsageForType Q t) = snd (extendedKeyUsageForType Q t)"
  by (simp add: keyUsageForType_def extendedKeyUsageForType_def Equal_def)

section \<open>Subject key identifier\<close>

text \<open>
  Claim C8. For an RSA public key, \<open>subjectKeyIdentifier\<close> returns the extension with OID
  2.5.29.14, not critical, whose payload is the octet-string marshalling of the SHA-1
  digest of the key's PKCS\#1 encoding. Marshalling a byte slice is the platform's; the
  source ends the process if it fails, so the statement is for the marshalling that
  succeeds.
\<close>

theorem subjectKeyIdentifier_extension:
  assumes "Marshal_Bytes S (sha1_Sum S (MarshalPKCS1PublicKey S key)) = Inr d"
  shows "subjectKeyIdentifier S key
           = Return \<lparr>ExtId = [2, 5, 29, 14], Critical = False, Value = d\<rparr>"
  using assms by (simp add: subjectKeyIdentifier_def)

theorem subjectKeyIdentifier_extension_witness:
  "Marshal_Bytes testStdlib (sha1_Sum testStdlib
     (MarshalPKCS1PublicKey testStdlib (PublicKey testKey))) = Inr [4, 1, 2] \<and>
   subjectKeyIdentifier testStdlib (PublicKey testKey)
     = Return \<lparr>ExtId = [2, 5, 29, 14], Critical = False, Value = [4, 1, 2]\<rparr>"
  using subjectKeyIdentifier_extension [of testStdlib "PublicKey testKey" "[4, 1, 2]"]
  by (simp add: testStdlib_def)

section \<open>The key-type check\<close>

text \<open>
  Claim C5. When the public component of the signing key is not an RSA public key,
  \<open>GenerateCSRWithKey\<close> returns nil bytes and the unsupported-key error, whose message ends
  with the name of the type that was found. This holds whatever the collaborators and the
  other arguments are: the check comes before every other step.
\<close>

theorem GenerateCSRWithKey_rejects_non_RSA:
  assumes "Public priv = Other_Pub T"
  shows "GenerateCSRWithKey S Q countryCode orgName orgID commonName roles qcType priv opts
           = Return (None, Some (UnsupportedKeyType T)) \<and>
         Error S (UnsupportedKeyType T)
           = ''only RSA keys are currently supported but got: '' @ T"
  using assms by (simp add: GenerateCSRWithKey_def assembleRequest_def Error_def)

theorem GenerateCSRWithKey_rejects_non_RSA_witness:
  "Public (Other_Signer (Other_Pub ''*ecdsa.PublicKey'')) = Other_Pub ''*ecdsa.PublicKey'' \<and>
   GenerateCSRWithKey testStdlib testQC ''XX'' ''Foo Org'' ''Foo Org ID'' ''Foo Name''
       [''PSP_AI''] [1, 2, 3] (Other_Signer (Other_Pub ''*ecdsa.PublicKey'')) []
     = Return (None, Some (UnsupportedKeyType ''*ecdsa.PublicKey'')) \<and>
   Error testStdlib (UnsupportedKeyType ''*ecdsa.PublicKey'')
     = ''only RSA keys are currently supported but got: *ecdsa.PublicKey''"
  using GenerateCSRWithKey_rejects_non_RSA
          [of "Other_Signer (Other_Pub ''*ecdsa.PublicKey'')" "''*ecdsa.PublicKey''"
              testStdlib testQC "''XX''" "''Foo Org''" "''Foo Org ID''" "''Foo Name''"
              "[''PSP_AI'']" "[1, 2, 3]" "[]"]
  by simp

section \<open>Key provisioning\<close>

lemma GenerateCSRWithKey_error_nil:
  assumes "GenerateCSRWithKey S Q countryCode orgName orgID commonName roles qcType priv opts
             = Return (csr, Some e)"
  shows "csr = None"
proof (cases "assembleRequest S Q countryCode orgName orgID commonName roles qcType priv")
  case (Exit m)
  with assms show ?thesis by (simp add: GenerateCSRWithKey_def)
next
  case (Return r)
  obtain req err where r: "r = (req, err)" by (cases r)
  show ?thesis
  proof (cases err)
    case (Some x)
    with assms Return r show ?thesis
      by (cases req) (auto simp add: GenerateCSRWithKey_def)
  next
    case None
    note err = this
    show ?thesis
    proof (cases req)
      case None
      with assms Return r err show ?thesis by (simp add: GenerateCSRWithKey_def)
    next
      case (Some rq)
      with assms Return r err show ?thesis
        by (cases "CreateCertificateRequest S (applyOptions opts rq) priv")
           (auto simp add: GenerateCSRWithKey_def)
    qed
  qed
qed

text \<open>
  Claim C9. \<open>GenerateCSR\<close> asks the platform for a 2048-bit RSA key. If that fails it
  returns the key-generation error. Otherwise it calls \<open>GenerateCSRWithKey\<close> with the same
  parameters and options and the new key as signer: on success the bytes come back as they
  are, together with the key; on an error the error comes back as it is, with the bytes
  that came with it (always nil) and, as claim C10 says, without the key.
\<close>

theorem GenerateCSR_delegates:
  "(GenerateKey S 2048 = Inl err \<longrightarrow>
      GenerateCSR S Q countryCode orgName orgID commonName roles qcType opts
        = Return (None, None, Some (KeyGenerationFailed err))) \<and>
   (GenerateKey S 2048 = Inr key \<longrightarrow>
      (GenerateCSRWithKey S Q countryCode orgName orgID commonName roles qcType
         (RSA_Signer key) opts = Return (csr, None) \<longrightarrow>
       GenerateCSR S Q countryCode orgName orgID commonName roles qcType opts
         = Return (csr, Some key, None)) \<and>
      (GenerateCSRWithKey S Q countryCode orgName orgID commonName roles qcType
         (RSA_Signer key) opts = Return (csr, Some e) \<longrightarrow>
       csr = None \<and>
       GenerateCSR S Q countryCode orgName orgID commonName roles qcType opts
         = Return (csr, None, Some e)) \<and>
      (GenerateCSRWithKey S Q countryCode orgName orgID commonName roles qcType
         (RSA_Signer key) opts = Exit msg \<longrightarrow>
       GenerateCSR S Q countryCode orgName orgID commonName roles qcType opts = Exit msg))"
  using GenerateCSRWithKey_error_nil
          [of S Q countryCode orgName orgID commonName roles qcType "RSA_Signer key" opts csr e]
  by (auto simp add: GenerateCSR_def)

theorem GenerateCSR_delegates_witness:
  "GenerateKey noEntropyStdlib 2048 = Inl ''no entropy'' \<and>
   GenerateCSR noEntropyStdlib testQC ''GB'' ''Foo Org'' ''Foo Org ID'' ''Foo Name''
       [''PSP_AI''] [0, 4, 0, 1862, 1, 6, 3] [WithDNSName ''foo.example.com'']
     = Return (None, None, Some (KeyGenerationFailed ''no entropy'')) \<and>
   GenerateKey testStdlib 2048 = Inr testKey \<and>
   GenerateCSRWithKey testStdlib testQC ''GB'' ''Foo Org'' ''Foo Org ID'' ''Foo Name''
       [''PSP_AI''] [0, 4, 0, 1862, 1, 6, 3] (RSA_Signer testKey)
       [WithDNSName ''foo.example.com'']
     = Return (Some [48, 4], None) \<and>
   GenerateCSR testStdlib testQC ''GB'' ''Foo Org'' ''Foo Org ID'' ''Foo Name''
       [''PSP_AI''] [0, 4, 0, 1862, 1, 6, 3] [WithDNSName ''foo.example.com'']
     = Return (Some [48, 4], Some testKey, None) \<and>
   GenerateCSRWithKey testStdlib testQC ''GB'' ''Foo Org'' ''Foo Org ID'' ''Foo Name''
       [''PSP_AI''] [1, 2, 3] (RSA_Signer testKey) []
     = Return (None, Some (UnsupportedCertificateType [1, 2, 3])) \<and>
   GenerateCSR testStdlib testQC ''GB'' ''Foo Org'' ''Foo Org ID'' ''Foo Name''
       [''PSP_AI''] [1, 2, 3] []
     = Return (None, None, Some (UnsupportedCertificateType [1, 2, 3]))"
  using GenerateCSR_delegates
          [of noEntropyStdlib "''no entropy''" testQC "''GB''" "''Foo Org''" "''Foo Org ID''"
              "''Foo Name''" "[''PSP_AI'']" "[0, 4, 0, 1862, 1, 6, 3]"
              "[WithDNSName ''foo.example.com'']"]
        GenerateCSR_delegates
          [of testStdlib _ testQC "''GB''" "''Foo Org''" "''Foo Org ID''"
              "''Foo Name''" "[''PSP_AI'']" "[0, 4, 0, 1862, 1, 6, 3]"
              "[WithDNSName ''foo.example.com'']" testKey "Some [48, 4]"]
        GenerateCSR_delegates
          [of testStdlib _ testQC "''GB''" "''Foo Org''" "''Foo Org ID''"
              "''Foo Name''" "[''PSP_AI'']" "[1, 2, 3]" "[]" testKey None
              "UnsupportedCertificateType [1, 2, 3]"]
        test_build_QWAC
  by (simp add: test_defs)

text \<open>
  Claim C10. Whenever \<open>GenerateCSR\<close> returns an error, the bytes and the key it returns
  are both nil; this covers the run where the key was generated and the build then failed.
\<close>

theorem GenerateCSR_error_returns_nothing:
  assumes "GenerateCSR S Q countryCode orgName orgID commonName roles qcType opts
             = Return (csr, key, Some e)"
  shows "csr = None \<and> key = None"
proof (cases "GenerateKey S 2048")
  case (Inl err)
  with assms show ?thesis by (simp add: GenerateCSR_def)
next
  case (Inr k)
  show ?thesis
  proof (cases "GenerateCSRWithKey S Q countryCode orgName orgID commonName roles qcType
                  (RSA_Signer k) opts")
    case (Exit m)
    with assms Inr show ?thesis by (simp add: GenerateCSR_def)
  next
    case (Return r)
    obtain c er where r: "r = (c, er)" by (cases r)
    from assms Inr Return r show ?thesis
      by (cases er) (simp_all add: GenerateCSR_def)
  qed
qed

theorem GenerateCSR_error_returns_nothing_witness:
  "GenerateCSR testStdlib testQC ''GB'' ''Foo Org'' ''Foo Org ID'' ''Foo Name''
       [''PSP_AI''] [1, 2, 3] []
     = Return (None, None, Some (UnsupportedCertificateType [1, 2, 3])) \<and>
   GenerateKey testStdlib 2048 = Inr testKey \<and>
   (None :: bytes option) = None \<and> (None :: rsa_PrivateKey option) = None"
  using GenerateCSR_error_returns_nothing
          [of testStdlib testQC "''GB''" "''Foo Org''" "''Foo Org ID''" "''Foo Name''"
              "[''PSP_AI'']" "[1, 2, 3]" "[]" None None "UnsupportedCertificateType [1, 2, 3]"]
  by (simp add: test_defs)

section \<open>The request as assembled\<close>

text \<open>
  The built-in option only appends a DNS name: the extension list and the subject reach
  the signer as they were assembled.
\<close>

lemma applyOptions_WithDNSName_core:
  "\<forall>opt \<in> set opts. \<exists>domain. opt = WithDNSName domain \<Longrightarrow>
     ExtraExtensions (applyOptions opts req) = ExtraExtensions req \<and>
     RawSubject (applyOptions opts req) = RawSubject req"
  by (induction opts arbitrary: req) (auto simp: WithDNSName_def)

lemma subjectKeyIdentifier_ReturnD:
  "subjectKeyIdentifier S key = Return ski \<Longrightarrow> ExtId ski = [2, 5, 29, 14] \<and> \<not> Critical ski"
  by (auto simp: subjectKeyIdentifier_def Let_def split: sum.splits)

text \<open>
  Claim C2. With QWAC and QSEAL two different type OIDs, \<open>extendedKeyUsageForType\<close>
  returns the TLS server and client authentication OIDs, in that order, for QWAC and the
  empty list for QSEAL; and in every successful build for QSEAL the request that was
  assembled (the one the options and then the signer receive) has no extension with
  OID 2.5.29.37 in its list.
\<close>

theorem extendedKeyUsage_by_type:
  assumes "QWACType Q \<noteq> QSEALType Q"
  shows "extendedKeyUsageForType Q (QWACType Q)
           = (Some [[1, 3, 6, 1, 5, 5, 7, 3, 1], [1, 3, 6, 1, 5, 5, 7, 3, 2]], None) \<and>
         extendedKeyUsageForType Q (QSEALType Q) = (Some [], None) \<and>
         (GenerateCSRWithKey S Q countryCode orgName orgID commonName roles (QSEALType Q)
            priv opts = Return (Some csr, None) \<longrightarrow>
          (\<exists>req. assembleRequest S Q countryCode orgName orgID commonName roles (QSEALType Q)
                    priv = Return (Some req, None) \<and>
                 CreateCertificateRequest S (applyOptions opts req) priv = Inr csr \<and>
                 [2, 5, 29, 37] \<notin> set (map ExtId (ExtraExtensions req))))"
proof (intro conjI impI)
  show "extendedKeyUsageForType Q (QWACType Q)
          = (Some [[1, 3, 6, 1, 5, 5, 7, 3, 1], [1, 3, 6, 1, 5, 5, 7, 3, 2]], None)"
    by (simp add: extendedKeyUsageForType_def Equal_def tLSWWWServerAuthUsage_def
          tLSWWWClientAuthUsage_def)
  show "extendedKeyUsageForType Q (QSEALType Q) = (Some [], None)"
    using assms by (simp add: extendedKeyUsageForType_def Equal_def)
  assume ok: "GenerateCSRWithKey S Q countryCode orgName orgID commonName roles (QSEALType Q)
                priv opts = Return (Some csr, None)"
  from GenerateCSRWithKey_SomeD [OF ok] obtain req where
    req: "assembleRequest S Q countryCode orgName orgID commonName roles (QSEALType Q) priv
            = Return (Some req, None)"
    and sign: "CreateCertificateRequest S (applyOptions opts req) priv = Inr csr"
    by blast
  from assembleRequest_SomeD [OF req] obtain pub ca qc ku eku ski subject where
    eku: "extendedKeyUsageForType Q (QSEALType Q) = (eku, None)"
    and ski: "subjectKeyIdentifier S pub = Return ski"
    and r: "req = newRequest subject (assembleExtensions S (elems ku) (elems eku) ski qc)"
    by blast
  from eku assms have "eku = Some []"
    by (simp add: extendedKeyUsageForType_def Equal_def)
  with r subjectKeyIdentifier_ReturnD [OF ski]
  have "map ExtId (ExtraExtensions req) = [[2, 5, 29, 15], [2, 5, 29, 14], QCStatementsExt]"
    by (simp add: newRequest_def assembleExtensions_def elems_def keyUsageExtension_def
          qcStatementsExtension_def)
  then have "[2, 5, 29, 37] \<notin> set (map ExtId (ExtraExtensions req))"
    by (simp add: QCStatementsExt_def)
  with req sign
  show "\<exists>req. assembleRequest S Q countryCode orgName orgID commonName roles (QSEALType Q)
                  priv = Return (Some req, None) \<and>
               CreateCertificateRequest S (applyOptions opts req) priv = Inr csr \<and>
               [2, 5, 29, 37] \<notin> set (map ExtId (ExtraExtensions req))"
    by blast
qed

theorem extendedKeyUsage_by_type_witness:
  "QWACType testQC \<noteq> QSEALType testQC \<and>
   extendedKeyUsageForType testQC [0, 4, 0, 1862, 1, 6, 3]
     = (Some [[1, 3, 6, 1, 5, 5, 7, 3, 1], [1, 3, 6, 1, 5, 5, 7, 3, 2]], None) \<and>
   extendedKeyUsageForType testQC [0, 4, 0, 1862, 1, 6, 2] = (Some [], None) \<and>
   GenerateCSRWithKey testStdlib testQC ''GB'' ''Foo Org'' ''Foo Org ID'' ''Foo Name''
       [''PSP_AI''] [0, 4, 0, 1862, 1, 6, 2] (RSA_Signer testKey) []
     = Return (Some [48, 4], None) \<and>
   (\<exists>req. assembleRequest testStdlib testQC ''GB'' ''Foo Org'' ''Foo Org ID'' ''Foo Name''
            [''PSP_AI''] [0, 4, 0, 1862, 1, 6, 2] (RSA_Signer testKey)
            = Return (Some req, None) \<and>
          CreateCertificateRequest testStdlib (applyOptions [] req) (RSA_Signer testKey)
            = Inr [48, 4] \<and>
          [2, 5, 29, 37] \<notin> set (map ExtId (ExtraExtensions req)))"
  using extendedKeyUsage_by_type
          [of testQC testStdlib "''GB''" "''Foo Org''" "''Foo Org ID''" "''Foo Name''"
              "[''PSP_AI'']" "RSA_Signer testKey" "[]" "[48, 4]"]
        test_build_QSEAL
  by (simp add: testQC_def)

text \<open>
  Claim C3. In every successful build the subject of the assembled request is the
  encoding of exactly four attributes, one per relative name, with the OIDs 2.5.4.6,
  2.5.4.10, 2.5.4.97, 2.5.4.3 in this order and the country code, organization name,
  organization id and common name that were supplied as their values.
\<close>

theorem subject_attributes:
  assumes "GenerateCSRWithKey S Q countryCode orgName orgID commonName roles qcType priv opts
             = Return (Some csr, None)"
  shows "\<exists>req. assembleRequest S Q countryCode orgName orgID commonName roles qcType priv
                  = Return (Some req, None) \<and>
               CreateCertificateRequest S (applyOptions opts req) priv = Inr csr \<and>
               Marshal_RDNSequence S
                 [[\<lparr>Type = [2, 5, 4, 6], AttrValue = countryCode\<rparr>],
                  [\<lparr>Type = [2, 5, 4, 10], AttrValue = orgName\<rparr>],
                  [\<lparr>Type = [2, 5, 4, 97], AttrValue = orgID\<rparr>],
                  [\<lparr>Type = [2, 5, 4, 3], AttrValue = commonName\<rparr>]]
                 = Inr (RawSubject req)"
proof -
  from GenerateCSRWithKey_SomeD [OF assms] obtain req where
    req: "assembleRequest S Q countryCode orgName orgID commonName roles qcType priv
            = Return (Some req, None)"
    and sign: "CreateCertificateRequest S (applyOptions opts req) priv = Inr csr"
    by blast
  from assembleRequest_SomeD [OF req] obtain ku eku ski qc subject where
    sub: "buildSubject S countryCode orgName commonName orgID = Inr subject"
    and r: "req = newRequest subject (assembleExtensions S (elems ku) (elems eku) ski qc)"
    by blast
  from sub r have "Marshal_RDNSequence S
                 [[\<lparr>Type = [2, 5, 4, 6], AttrValue = countryCode\<rparr>],
                  [\<lparr>Type = [2, 5, 4, 10], AttrValue = orgName\<rparr>],
                  [\<lparr>Type = [2, 5, 4, 97], AttrValue = orgID\<rparr>],
                  [\<lparr>Type = [2, 5, 4, 3], AttrValue = commonName\<rparr>]]
                 = Inr (RawSubject req)"
    by (simp add: buildSubject_def ToRDNSequence_def newRequest_def oidCountryCode_def
          oidOrganizationName_def oidOrganizationID_def oidCommonName_def)
  with req sign show ?thesis by blast
qed

theorem subject_attributes_witness:
  "GenerateCSRWithKey testStdlib testQC ''GB'' ''Foo Org'' ''Foo Org ID'' ''Foo Name''
       [''PSP_AI''] [0, 4, 0, 1862, 1, 6, 3] (RSA_Signer testKey)
       [WithDNSName ''foo.example.com'']
     = Return (Some [48, 4], None) \<and>
   (\<exists>req. assembleRequest testStdlib testQC ''GB'' ''Foo Org'' ''Foo Org ID'' ''Foo Name''
            [''PSP_AI''] [0, 4, 0, 1862, 1, 6, 3] (RSA_Signer testKey)
            = Return (Some req, None) \<and>
          CreateCertificateRequest testStdlib
            (applyOptions [WithDNSName ''foo.example.com''] req) (RSA_Signer testKey)
            = Inr [48, 4] \<and>
          Marshal_RDNSequence testStdlib
            [[\<lparr>Type = [2, 5, 4, 6], AttrValue = ''GB''\<rparr>],
             [\<lparr>Type = [2, 5, 4, 10], AttrValue = ''Foo Org''\<rparr>],
             [\<lparr>Type = [2, 5, 4, 97], AttrValue = ''Foo Org ID''\<rparr>],
             [\<lparr>Type = [2, 5, 4, 3], AttrValue = ''Foo Name''\<rparr>]]
            = Inr (RawSubject req))"
  using subject_attributes [OF test_build_QWAC] test_build_QWAC
  by simp

text \<open>
  Claim C4. In every successful build the extension list of the assembled request is, in
  this order: key usage (2.5.29.15, critical); extended key usage (2.5.29.37, not
  critical) exactly when the list of extended usages for the type is not empty; subject
  key identifier (2.5.29.14, not critical); qc-statements (1.3.6.1.5.5.7.1.3, not
  critical). Each entry is the one its builder returns.
\<close>

theorem assembled_extension_list:
  assumes "GenerateCSRWithKey S Q countryCode orgName orgID commonName roles qcType priv opts
             = Return (Some csr, None)"
  shows "\<exists>req pub ca qc keyUsage extendedKeyUsage ski.
           assembleRequest S Q countryCode orgName orgID commonName roles qcType priv
             = Return (Some req, None) \<and>
           CreateCertificateRequest S (applyOptions opts req) priv = Inr csr \<and>
           Public priv = RSA_Pub pub \<and>
           CompetentAuthorityForCountryCode Q countryCode = Inr ca \<and>
           Serialize Q roles ca qcType = Inr qc \<and>
           keyUsageForType Q qcType = (Some keyUsage, None) \<and>
           extendedKeyUsageForType Q qcType = (Some extendedKeyUsage, None) \<and>
           subjectKeyIdentifier S pub = Return ski \<and>
           ExtraExtensions req
             = [keyUsageExtension S keyUsage] @
               (if extendedKeyUsage = [] then []
                else [extendedKeyUsageExtension S extendedKeyUsage]) @
               [ski, qcStatementsExtension qc] \<and>
           map (\<lambda>e. (ExtId e, Critical e)) (ExtraExtensions req)
             = [([2, 5, 29, 15], True)] @
               (if extendedKeyUsage = [] then [] else [([2, 5, 29, 37], False)]) @
               [([2, 5, 29, 14], False), ([1, 3, 6, 1, 5, 5, 7, 1, 3], False)]"
proof -
  from GenerateCSRWithKey_SomeD [OF assms] obtain req where
    req: "assembleRequest S Q countryCode orgName orgID commonName roles qcType priv
            = Return (Some req, None)"
    and sign: "CreateCertificateRequest S (applyOptions opts req) priv = Inr csr"
    by blast
  from assembleRequest_SomeD [OF req] obtain pub ca qc kuo ekuo ski subject where
    pub: "Public priv = RSA_Pub pub"
    and ca: "CompetentAuthorityForCountryCode Q countryCode = Inr ca"
    and qc: "Serialize Q roles ca qcType = Inr qc"
    and kuo: "keyUsageForType Q qcType = (kuo, None)"
    and ekuo: "extendedKeyUsageForType Q qcType = (ekuo, None)"
    and ski: "subjectKeyIdentifier S pub = Return ski"
    and r: "req = newRequest subject (assembleExtensions S (elems kuo) (elems ekuo) ski qc)"
    by blast
  from keyUsageForType_NoneD [OF kuo] obtain ku where ku: "kuo = Some ku" by blast
  from extendedKeyUsageForType_NoneD [OF ekuo] obtain eku where eku: "ekuo = Some eku" by blast
  from r ku eku have exts:
    "ExtraExtensions req
       = [keyUsageExtension S ku] @
         (if eku = [] then [] else [extendedKeyUsageExtension S eku]) @
         [ski, qcStatementsExtension qc]"
    by (simp add: newRequest_def assembleExtensions_def elems_def)
  from subjectKeyIdentifier_ReturnD [OF ski] have
    "map (\<lambda>e. (ExtId e, Critical e)) (ExtraExtensions req)
       = [([2, 5, 29, 15], True)] @
         (if eku = [] then [] else [([2, 5, 29, 37], False)]) @
         [([2, 5, 29, 14], False), ([1, 3, 6, 1, 5, 5, 7, 1, 3], False)]"
    unfolding exts
    by (simp add: keyUsageExtension_def extendedKeyUsageExtension_def
          qcStatementsExtension_def QCStatementsExt_def)
  with req sign pub ca qc kuo ekuo ski ku eku exts show ?thesis by blast
qed

theorem assembled_extension_list_witness:
  "GenerateCSRWithKey testStdlib testQC ''GB'' ''Foo Org'' ''Foo Org ID'' ''Foo Name''
       [''PSP_AI''] [0, 4, 0, 1862, 1, 6, 3] (RSA_Signer testKey)
       [WithDNSName ''foo.example.com'']
     = Return (Some [48, 4], None) \<and>
   (\<exists>req pub ca qc keyUsage extendedKeyUsage ski.
      assembleRequest testStdlib testQC ''GB'' ''Foo Org'' ''Foo Org ID'' ''Foo Name''
          [''PSP_AI''] [0, 4, 0, 1862, 1, 6, 3] (RSA_Signer testKey)
        = Return (Some req, None) \<and>
      CreateCertificateRequest testStdlib
          (applyOptions [WithDNSName ''foo.example.com''] req) (RSA_Signer testKey)
        = Inr [48, 4] \<and>
      Public (RSA_Signer testKey) = RSA_Pub pub \<and>
      CompetentAuthorityForCountryCode testQC ''GB'' = Inr ca \<and>
      Serialize testQC [''PSP_AI''] ca [0, 4, 0, 1862, 1, 6, 3] = Inr qc \<and>
      keyUsageForType testQC [0, 4, 0, 1862, 1, 6, 3] = (Some keyUsage, None) \<and>
      extendedKeyUsageForType testQC [0, 4, 0, 1862, 1, 6, 3]
        = (Some extendedKeyUsage, None) \<and>
      subjectKeyIdentifier testStdlib pub = Return ski \<and>
      ExtraExtensions req
        = [keyUsageExtension testStdlib keyUsage] @
          (if extendedKeyUsage = [] then []
           else [extendedKeyUsageExtension testStdlib extendedKeyUsage]) @
          [ski, qcStatementsExtension qc] \<and>
      map (\<lambda>e. (ExtId e, Critical e)) (ExtraExtensions req)
        = [([2, 5, 29, 15], True)] @
          (if extendedKeyUsage = [] then [] else [([2, 5, 29, 37], False)]) @
          [([2, 5, 29, 14], False), ([1, 3, 6, 1, 5, 5, 7, 1, 3], False)])"
  using assembled_extension_list [OF test_build_QWAC] test_build_QWAC
  by simp

section \<open>The key-usage bit string\<close>

text \<open>
  Claim C6. What \<open>keyUsageExtension\<close> hands to the encoder, evaluated on the two lists
  that reach it. The first content byte is 0x80 for QWAC and 0xC0 for QSEAL, and the
  extension is always critical, as the claim says. The declared bit length is not the one
  the standard's rule gives (1 and 2): it is the value of the constant
  \<open>KeyUsageDecipherOnly\<close>, 256, for every list, next to two content bytes.
\<close>

theorem keyUsageBits_declared_length:
  "keyUsageBits [KeyUsageDigitalSignature] = \<lparr>Bytes = [0x80, 0x00], BitLength = 256\<rparr> \<and>
   canonicalBitLength [0x80, 0x00] = 1 \<and>
   keyUsageBits [KeyUsageDigitalSignature, KeyUsageContentCommitment]
     = \<lparr>Bytes = [0xC0, 0x00], BitLength = 256\<rparr> \<and>
   canonicalBitLength [0xC0, 0x00] = 2 \<and>
   BitLength (keyUsageBits usages) = 256 \<and>
   Critical (keyUsageExtension S usages)"
  by (simp add: keyUsageBits_def PutUint16_def shl16_def KeyUsageDigitalSignature_def
        KeyUsageContentCommitment_def KeyUsageDecipherOnly_def keyUsageExtension_def
        canonicalBitLength_def bitAt_def upt_rec)

end
